theory Spec2Isabelle
  imports Main "HOL-Library.Sublist"
begin

section \<open>The user table and what a command prints\<close>

text \<open>
  \<^verbatim>\<open>app/cli.py\<close> is a set of commands over one table of users. A Python \<open>User\<close> object
  carries \<open>id\<close>, \<open>username\<close>, \<open>email\<close> and \<open>password\<close>; a freshly constructed object has
  \<open>id = None\<close> until the engine assigns the primary key when the row is written.
  The table is the list of its rows in storage order (ascending row id).
\<close>

record user =
  user_id :: "nat option"
  username :: string
  email :: string
  password :: string

text \<open>
  Exceptions are values. \<open>IntegrityError\<close> is the one exception the source names;
  \<open>DBAPIError\<close> stands for any other failure the engine may report.
\<close>

datatype error = IntegrityError | DBAPIError

text \<open>
  Standard output: \<open>print(user)\<close> is the line \<open>Row user\<close>, every other \<open>print\<close> is a line
  of text. A command either runs to its end, having printed some lines, or leaves with an
  exception nobody caught.
\<close>

datatype line = Text string | Row user

datatype outcome = Printed "line list" | Raised error


section \<open>The storage engine\<close>

text \<open>
  The engine is chosen by the connection string in \<^verbatim>\<open>app/database.py\<close>, which is not part
  of the sources at hand. The two places where engines differ are parameters of the model:
  the character comparison of the \<open>LIKE\<close> operator, and what a negative \<open>LIMIT\<close> or
  \<open>OFFSET\<close> does. Integers are unbounded, as Python's are, and a string is the list of
  its characters. Equality of strings (\<open>User.username == username\<close>, and the unique
  constraints) is exact.
\<close>

record engine =
  like_eq :: "char \<Rightarrow> char \<Rightarrow> bool"
  negative_slice :: "int \<Rightarrow> int \<Rightarrow> user list \<Rightarrow> error + user list"

text \<open>
  One instance, SQLite: \<open>LIKE\<close> ignores the case of ASCII letters, a negative \<open>LIMIT\<close>
  means no limit and a negative \<open>OFFSET\<close> means zero.
\<close>

definition ascii_lower :: "char \<Rightarrow> char" where
  "ascii_lower c =
     (let n = (of_char c :: nat) in if 65 \<le> n \<and> n \<le> 90 then char_of (n + 32) else c)"

definition sqlite :: engine where
  "sqlite =
     \<lparr>like_eq = (\<lambda>a b. ascii_lower a = ascii_lower b),
      negative_slice = (\<lambda>lim off rows.
         Inr (let rest = drop (nat off) rows in if lim < 0 then rest else take (nat lim) rest))\<rparr>"

subsection \<open>The session\<close>

text \<open>
  A session holds the table as the engine has it, the writes registered by \<open>db.add\<close> and
  \<open>db.delete\<close> that the next \<open>db.commit()\<close> will send, and the row id of the last insert
  (the driver's \<open>lastrowid\<close>, which the object mapper writes back into the new object).
\<close>

datatype db_write = Insert user | Update user | Delete user

record session =
  table :: "user list"
  pending :: "db_write list"
  lastrowid :: "nat option"

text \<open>
  Modelled from the spec: \<open>get_session\<close> of \<^verbatim>\<open>app/database.py\<close>, a scoped session that
  is released on every exit path. Leaving the \<open>with\<close> block closes the session: what was
  committed stays, what was only registered is dropped.
\<close>

definition get_session :: "user list \<Rightarrow> session" where
  "get_session t = \<lparr>table = t, pending = [], lastrowid = None\<rparr>"

definition session_exit :: "session \<Rightarrow> user list" where
  "session_exit db = table db"



text \<open>\<open>db.add\<close> registers an insert for an object without a primary key, an update otherwise.\<close>

definition db_add :: "session \<Rightarrow> user \<Rightarrow> session" where
  "db_add db u =
     db\<lparr>pending := pending db @ [if user_id u = None then Insert u else Update u]\<rparr>"

definition db_delete :: "session \<Rightarrow> user \<Rightarrow> session" where
  "db_delete db u = db\<lparr>pending := pending db @ [Delete u]\<rparr>"

definition db_rollback :: "session \<Rightarrow> session" where
  "db_rollback db = db\<lparr>pending := []\<rparr>"

text \<open>The engine gives a new row the id one above the largest id in use (1 in an empty table).\<close>

fun max_id :: "user list \<Rightarrow> nat" where
  "max_id [] = 0"
| "max_id (r # rs) = (case user_id r of None \<Rightarrow> max_id rs | Some i \<Rightarrow> max i (max_id rs))"

definition next_id :: "user list \<Rightarrow> nat" where
  "next_id t = Suc (max_id t)"

text \<open>
  Modelled from the spec: the schema of \<open>User\<close> in \<^verbatim>\<open>app/models.py\<close> ("\<open>username\<close> unique
  across all records; \<open>email\<close> unique across all records"). A row violates the constraints
  when another row (one with a different id) has its username or its email.
\<close>

definition unique_violation :: "user list \<Rightarrow> user \<Rightarrow> bool" where
  "unique_violation t u =
     (\<exists>r \<in> set t. user_id r \<noteq> user_id u \<and> (username r = username u \<or> email r = email u))"

fun apply_write :: "session \<Rightarrow> db_write \<Rightarrow> error + session" where
  "apply_write db (Insert u) =
     (let row = u\<lparr>user_id := Some (next_id (table db))\<rparr>
      in if unique_violation (table db) row then Inl IntegrityError
         else Inr (db\<lparr>table := table db @ [row], lastrowid := Some (next_id (table db))\<rparr>))"
| "apply_write db (Update u) =
     (if unique_violation (table db) u then Inl IntegrityError
      else Inr (db\<lparr>table := map (\<lambda>r. if user_id r = user_id u then u else r) (table db)\<rparr>))"
| "apply_write db (Delete u) =
     Inr (db\<lparr>table := filter (\<lambda>r. user_id r \<noteq> user_id u) (table db)\<rparr>)"

fun flush :: "session \<Rightarrow> db_write list \<Rightarrow> error + session" where
  "flush db [] = Inr db"
| "flush db (w # ws) = (case apply_write db w of Inl e \<Rightarrow> Inl e | Inr db' \<Rightarrow> flush db' ws)"

text \<open>
  \<open>db.commit()\<close> sends the registered writes in one transaction: either all of them reach
  the table, or the first failure is raised and the table stays as it was.
\<close>

definition db_commit :: "session \<Rightarrow> error + session" where
  "db_commit db =
     (case flush db (pending db) of Inl e \<Rightarrow> Inl e | Inr db' \<Rightarrow> Inr (db'\<lparr>pending := []\<rparr>))"

subsection \<open>Queries\<close>

text \<open>\<open>db.exec(select(User).where(P))\<close> yields the rows satisfying \<open>P\<close>, in storage order.\<close>

definition exec_where :: "session \<Rightarrow> (user \<Rightarrow> bool) \<Rightarrow> user list" where
  "exec_where db P = filter P (table db)"

definition exec_all :: "session \<Rightarrow> user list" where
  "exec_all db = table db"

definition first :: "'a list \<Rightarrow> 'a option" where
  "first xs = (case xs of [] \<Rightarrow> None | x # _ \<Rightarrow> Some x)"

text \<open>
  The \<open>LIKE\<close> operator: in the pattern \<open>%\<close> stands for any run of characters and \<open>_\<close>
  for any one character; every other character is compared by the engine's \<open>like_eq\<close>.
\<close>

fun sql_like :: "(char \<Rightarrow> char \<Rightarrow> bool) \<Rightarrow> string \<Rightarrow> string \<Rightarrow> bool" where
  "sql_like ceq [] [] = True"
| "sql_like ceq [] (c # cs) = False"
| "sql_like ceq (p # ps) [] = (p = CHR ''%'' \<and> sql_like ceq ps [])"
| "sql_like ceq (p # ps) (c # cs) =
     (if p = CHR ''%'' then sql_like ceq ps (c # cs) \<or> sql_like ceq (p # ps) cs
      else (p = CHR ''_'' \<or> ceq p c) \<and> sql_like ceq ps cs)"

text \<open>
  \<open>column.contains(q)\<close> is the expression \<open>column LIKE '%' || q || '%'\<close>; the source
  passes no escape character, so a \<open>%\<close> or \<open>_\<close> inside \<open>q\<close> is a wildcard too.
\<close>

definition contains :: "(char \<Rightarrow> char \<Rightarrow> bool) \<Rightarrow> string \<Rightarrow> string \<Rightarrow> bool" where
  "contains ceq col q = sql_like ceq (CHR ''%'' # q @ [CHR ''%'']) col"

text \<open>
  \<open>select(User).offset(offset).limit(limit)\<close>: both numbers go to the engine as they are.
  For non-negative numbers every engine skips \<open>offset\<close> rows and returns at most \<open>limit\<close>.
\<close>

definition exec_offset_limit :: "engine \<Rightarrow> session \<Rightarrow> int \<Rightarrow> int \<Rightarrow> error + user list" where
  "exec_offset_limit eng db off lim =
     (if 0 \<le> off \<and> 0 \<le> lim then Inr (take (nat lim) (drop (nat off) (table db)))
      else negative_slice eng lim off (table db))"

section \<open>The commands of \<^verbatim>\<open>app/cli.py\<close>\<close>


definition get_user :: "user list \<Rightarrow> string \<Rightarrow> outcome \<times> user list" where
  "get_user t uname =
     (let db = get_session t
      in case first (exec_where db (\<lambda>u. username u = uname)) of
           None \<Rightarrow> (Printed [Text (uname @ '' not found!'')], session_exit db)
         | Some usr \<Rightarrow> (Printed [Row usr], session_exit db))"

definition get_all_users :: "user list \<Rightarrow> outcome \<times> user list" where
  "get_all_users t =
     (let db = get_session t; all_users = exec_all db
      in if all_users = [] then (Printed [Text ''No users found''], session_exit db)
         else (Printed (map Row all_users), session_exit db))"

definition change_email :: "user list \<Rightarrow> string \<Rightarrow> string \<Rightarrow> outcome \<times> user list" where
  "change_email t uname new_email =
     (let db = get_session t
      in case first (exec_where db (\<lambda>u. username u = uname)) of
           None \<Rightarrow>
             (Printed [Text (uname @ '' not found! Unable to update email.'')], session_exit db)
         | Some usr \<Rightarrow>
             (let usr' = usr\<lparr>email := new_email\<rparr>;
                  db1 = db_add db usr'
              in case db_commit db1 of
                   Inl e \<Rightarrow> (Raised e, session_exit db1)
                 | Inr db2 \<Rightarrow>
                     (Printed [Text (''Updated '' @ username usr' @ [CHR 0x27] @ ''s email to ''
                                     @ email usr')],
                      session_exit db2)))"

definition create_user :: "user list \<Rightarrow> string \<Rightarrow> string \<Rightarrow> string \<Rightarrow> outcome \<times> user list" where
  "create_user t uname mail pwd =
     (let db = get_session t;
          newuser = \<lparr>user_id = None, username = uname, email = mail, password = pwd\<rparr>;
          db1 = db_add db newuser
      in case db_commit db1 of
           Inl IntegrityError \<Rightarrow>
             (Printed [Text ''Username or email already taken!''], session_exit (db_rollback db1))
         | Inl e \<Rightarrow> (Raised e, session_exit db1)
         | Inr db2 \<Rightarrow> (Printed [Row (newuser\<lparr>user_id := lastrowid db2\<rparr>)], session_exit db2))"

definition delete_user :: "user list \<Rightarrow> string \<Rightarrow> outcome \<times> user list" where
  "delete_user t uname =
     (let db = get_session t
      in case first (exec_where db (\<lambda>u. username u = uname)) of
           None \<Rightarrow>
             (Printed [Text (uname @ '' not found! Unable to delete user.'')], session_exit db)
         | Some usr \<Rightarrow>
             (let db1 = db_delete db usr
              in case db_commit db1 of
                   Inl e \<Rightarrow> (Raised e, session_exit db1)
                 | Inr db2 \<Rightarrow> (Printed [Text (uname @ '' deleted'')], session_exit db2)))"

definition search_user :: "engine \<Rightarrow> user list \<Rightarrow> string \<Rightarrow> outcome \<times> user list" where
  "search_user eng t query =
     (let db = get_session t;
          users = exec_where db (\<lambda>u. contains (like_eq eng) (username u) query
                                     \<or> contains (like_eq eng) (email u) query)
      in if users = []
         then (Printed [Text (''No users found matching '' @ [CHR 0x27] @ query @ [CHR 0x27]
                              @ ''.'')],
               session_exit db)
         else (Printed (map Row users), session_exit db))"

definition list_users :: "engine \<Rightarrow> user list \<Rightarrow> int \<Rightarrow> int \<Rightarrow> outcome \<times> user list" where
  "list_users eng t limit offset =
     (let db = get_session t
      in case exec_offset_limit eng db offset limit of
           Inl e \<Rightarrow> (Raised e, session_exit db)
         | Inr users \<Rightarrow>
             if users = [] then (Printed [Text ''No users found.''], session_exit db)
             else (Printed (map Row users), session_exit db))"


section \<open>Tables the engine can hold, and example rows\<close>

text \<open>
  What the schema guarantees of every table the engine holds: the primary key is set and
  unique, and \<open>username\<close> and \<open>email\<close> are unique.
\<close>

definition table_ok :: "user list \<Rightarrow> bool" where
  "table_ok t =
     (distinct (map user_id t) \<and> None \<notin> set (map user_id t)
      \<and> distinct (map username t) \<and> distinct (map email t))"

text \<open>The row that a successful insert of a new object appends.\<close>

definition new_row :: "user list \<Rightarrow> string \<Rightarrow> string \<Rightarrow> string \<Rightarrow> user" where
  "new_row t uname mail pwd =
     \<lparr>user_id = Some (next_id t), username = uname, email = mail, password = pwd\<rparr>"

text \<open>The seed row of \<open>initialize\<close> as stored, and a second row, for concrete runs.\<close>

definition bob_row :: user where
  "bob_row = \<lparr>user_id = Some 1, username = ''bob'', email = ''bob@mail.com'',
               password = ''bobpass''\<rparr>"

definition alice_row :: user where
  "alice_row = \<lparr>user_id = Some 2, username = ''alice'', email = ''a@x.com'',
                 password = ''alicepass''\<rparr>"





section \<open>What each command computes\<close>

lemma max_id_ge: "r \<in> set t \<Longrightarrow> user_id r = Some i \<Longrightarrow> i \<le> max_id t"
  by (induction t) (auto split: option.splits)

lemma next_id_fresh: "r \<in> set t \<Longrightarrow> user_id r \<noteq> Some (next_id t)"
  using max_id_ge [of r t "next_id t"] by (auto simp: next_id_def)

lemma unique_violation_fresh:
  "unique_violation t
     \<lparr>user_id = Some (next_id t), username = uname, email = mail, password = pwd\<rparr>
     = (\<exists>r \<in> set t. username r = uname \<or> email r = mail)"
  using next_id_fresh [of _ t] by (auto simp: unique_violation_def)

lemma commit_insert:
  "db_commit (db_add (get_session t)
      \<lparr>user_id = None, username = uname, email = mail, password = pwd\<rparr>)
     = (if \<exists>r \<in> set t. username r = uname \<or> email r = mail then Inl IntegrityError
        else Inr \<lparr>table = t @ [new_row t uname mail pwd], pending = [],
                  lastrowid = Some (next_id t)\<rparr>)"
  by (simp add: get_session_def db_add_def db_commit_def unique_violation_fresh new_row_def)

lemma rollback_restores: "db_rollback (db_add (get_session t) u) = get_session t"
  by (simp add: db_rollback_def db_add_def get_session_def)

lemma create_user_eq:
  "create_user t uname mail pwd =
     (if \<exists>r \<in> set t. username r = uname \<or> email r = mail
      then (Printed [Text ''Username or email already taken!''], t)
      else (Printed [Row (new_row t uname mail pwd)], t @ [new_row t uname mail pwd]))"
  by (simp add: create_user_def commit_insert Let_def)
     (simp add: get_session_def db_add_def db_rollback_def session_exit_def new_row_def)

lemma first_filter: "first (filter P xs) = List.find P xs"
  by (induction xs) (auto simp: first_def)


lemma lookup_eq: "first (exec_where (get_session t) P) = List.find P t"
  by (simp add: exec_where_def get_session_def first_filter)

lemma get_user_eq:
  "get_user t uname =
     (case List.find (\<lambda>u. username u = uname) t of
        None \<Rightarrow> (Printed [Text (uname @ '' not found!'')], t)
      | Some usr \<Rightarrow> (Printed [Row usr], t))"
  by (simp add: get_user_def lookup_eq Let_def)
     (simp add: get_session_def session_exit_def split: option.splits)

lemma commit_update:
  "user_id u \<noteq> None \<Longrightarrow>
   db_commit (db_add (get_session t) u)
     = (if unique_violation t u then Inl IntegrityError
        else Inr \<lparr>table = map (\<lambda>r. if user_id r = user_id u then u else r) t, pending = [],
                  lastrowid = None\<rparr>)"
  by (cases "user_id u") (simp_all add: get_session_def db_add_def db_commit_def)

lemma commit_delete:
  "db_commit (db_delete (get_session t) u)
     = Inr \<lparr>table = filter (\<lambda>r. user_id r \<noteq> user_id u) t, pending = [], lastrowid = None\<rparr>"
  by (simp add: get_session_def db_delete_def db_commit_def)

lemma change_email_absent:
  "List.find (\<lambda>u. username u = uname) t = None \<Longrightarrow>
   change_email t uname new_email
     = (Printed [Text (uname @ '' not found! Unable to update email.'')], t)"
  by (simp add: change_email_def lookup_eq Let_def) (simp add: get_session_def session_exit_def)

lemma change_email_found:
  "List.find (\<lambda>u. username u = uname) t = Some usr \<Longrightarrow> user_id usr \<noteq> None \<Longrightarrow>
   change_email t uname new_email
     = (if unique_violation t (usr\<lparr>email := new_email\<rparr>) then (Raised IntegrityError, t)
        else (Printed [Text (''Updated '' @ username usr @ [CHR 0x27] @ ''s email to ''
                             @ new_email)],
              map (\<lambda>r. if user_id r = user_id usr then usr\<lparr>email := new_email\<rparr> else r) t))"
  by (simp add: change_email_def lookup_eq Let_def commit_update)
     (simp add: get_session_def session_exit_def db_add_def)

lemma delete_user_eq:
  "delete_user t uname =
     (case List.find (\<lambda>u. username u = uname) t of
        None \<Rightarrow> (Printed [Text (uname @ '' not found! Unable to delete user.'')], t)
      | Some usr \<Rightarrow>
          (Printed [Text (uname @ '' deleted'')], filter (\<lambda>r. user_id r \<noteq> user_id usr) t))"
  by (simp add: delete_user_def lookup_eq Let_def commit_delete split: option.splits)
     (simp add: get_session_def session_exit_def)


lemma search_user_eq:
  "search_user eng t query =
     (let users = filter (\<lambda>u. contains (like_eq eng) (username u) query
                              \<or> contains (like_eq eng) (email u) query) t
      in if users = []
         then (Printed [Text (''No users found matching '' @ [CHR 0x27] @ query @ [CHR 0x27]
                              @ ''.'')], t)
         else (Printed (map Row users), t))"
  by (simp add: search_user_def exec_where_def get_session_def session_exit_def Let_def)

lemma list_users_eq:
  "list_users eng t limit offset =
     (case (if 0 \<le> offset \<and> 0 \<le> limit then Inr (take (nat limit) (drop (nat offset) t))
            else negative_slice eng limit offset t) of
        Inl e \<Rightarrow> (Raised e, t)
      | Inr users \<Rightarrow>
          if users = [] then (Printed [Text ''No users found.''], t)
          else (Printed (map Row users), t))"
  by (simp add: list_users_def exec_offset_limit_def get_session_def session_exit_def Let_def
      split: sum.splits)



subsection \<open>Rows of a table that satisfies the schema\<close>

lemma ok_same_id:
  "table_ok t \<Longrightarrow> r \<in> set t \<Longrightarrow> u \<in> set t \<Longrightarrow> user_id r = user_id u \<Longrightarrow> r = u"
  by (auto simp: table_ok_def distinct_map dest: inj_onD)

lemma ok_same_username:
  "table_ok t \<Longrightarrow> r \<in> set t \<Longrightarrow> u \<in> set t \<Longrightarrow> username r = username u \<Longrightarrow> r = u"
  by (auto simp: table_ok_def distinct_map dest: inj_onD)


lemma ok_has_id: "table_ok t \<Longrightarrow> r \<in> set t \<Longrightarrow> user_id r \<noteq> None"
  by (cases "user_id r") (force simp: table_ok_def image_iff)+

lemma find_in_ok_table:
  "table_ok t \<Longrightarrow> usr \<in> set t \<Longrightarrow> List.find (\<lambda>u. username u = username usr) t = Some usr"
  unfolding table_ok_def
  by (induction t) (auto simp: image_iff)

lemma ok_violation:
  assumes "table_ok t" and "usr \<in> set t"
  shows "unique_violation t (usr\<lparr>email := new_email\<rparr>)
           = (\<exists>r \<in> set t. r \<noteq> usr \<and> email r = new_email)"
proof -
  have same: "r = usr"
    if "r \<in> set t" and "user_id r = user_id usr \<or> username r = username usr" for r
    using that ok_same_id [OF assms(1) _ assms(2)] ok_same_username [OF assms(1) _ assms(2)]
    by blast
  show ?thesis
  proof
    assume "unique_violation t (usr\<lparr>email := new_email\<rparr>)"
    then obtain r where "r \<in> set t" and "user_id r \<noteq> user_id usr" and "email r = new_email"
      using same by (auto simp: unique_violation_def)
    then show "\<exists>r \<in> set t. r \<noteq> usr \<and> email r = new_email"
      by auto
  next
    assume "\<exists>r \<in> set t. r \<noteq> usr \<and> email r = new_email"
    then obtain r where "r \<in> set t" and "r \<noteq> usr" and "email r = new_email"
      by auto
    moreover from this have "user_id r \<noteq> user_id usr"
      using same by blast
    ultimately show "unique_violation t (usr\<lparr>email := new_email\<rparr>)"
      by (auto simp: unique_violation_def)
  qed
qed

lemma ok_update_map:
  assumes "table_ok t" and "usr \<in> set t"
  shows "map (\<lambda>r. if user_id r = user_id usr then u else r) t
           = map (\<lambda>r. if r = usr then u else r) t"
  using ok_same_id [OF assms(1) _ assms(2)] by (intro map_cong) auto

lemma change_email_ok_table:
  assumes "table_ok t" and "usr \<in> set t"
  shows "change_email t (username usr) new_email
           = (if \<exists>r \<in> set t. r \<noteq> usr \<and> email r = new_email then (Raised IntegrityError, t)
              else (Printed [Text (''Updated '' @ username usr @ [CHR 0x27] @ ''s email to ''
                                   @ new_email)],
                    map (\<lambda>r. if r = usr then usr\<lparr>email := new_email\<rparr> else r) t))"
  using change_email_found [OF find_in_ok_table [OF assms] ok_has_id [OF assms], of new_email]
  by (simp add: ok_violation [OF assms] ok_update_map [OF assms])

subsection \<open>The schema is preserved by every command that writes\<close>






subsection \<open>\<open>LIKE\<close> with a pattern free of wildcards is a substring test\<close>






section \<open>Creating a user\<close>

text \<open>
  C1. Whenever some existing record has the given username or the given email, the commit
  inside \<open>create_user\<close> raises \<open>IntegrityError\<close>; the command catches it, the rollback
  puts the session back to where it was opened, and the one message
  "Username or email already taken!" is printed whichever field collided. The table
  afterwards is the table before, so the colliding record and the number of records are
  unchanged.
\<close>

theorem create_user_duplicate:
  assumes "r \<in> set t" and "username r = uname \<or> email r = mail"
  shows "db_commit (db_add (get_session t)
            \<lparr>user_id = None, username = uname, email = mail, password = pwd\<rparr>)
           = Inl IntegrityError
         \<and> db_rollback (db_add (get_session t)
              \<lparr>user_id = None, username = uname, email = mail, password = pwd\<rparr>)
           = get_session t
         \<and> create_user t uname mail pwd
           = (Printed [Text ''Username or email already taken!''], t)"
proof -
  from assms have taken: "\<exists>r \<in> set t. username r = uname \<or> email r = mail"
    by blast
  then show ?thesis
    by (simp add: commit_insert create_user_eq rollback_restores)
qed

theorem create_user_duplicate_witness:
  "create_user [bob_row] ''bob'' ''other@mail.com'' ''pw''
     = (Printed [Text ''Username or email already taken!''], [bob_row])
   \<and> create_user [bob_row] ''robert'' ''bob@mail.com'' ''pw''
     = (Printed [Text ''Username or email already taken!''], [bob_row])"
  using create_user_duplicate [of bob_row "[bob_row]" "''bob''" "''other@mail.com''" "''pw''"]
    create_user_duplicate [of bob_row "[bob_row]" "''robert''" "''bob@mail.com''" "''pw''"]
  by (simp add: bob_row_def)





section \<open>Usernames that are not in the table\<close>

text \<open>
  C3. When no record has the given username, \<open>get_user\<close>, \<open>change_email\<close> and
  \<open>delete_user\<close> each print their not-found message, raise nothing, and leave the table
  exactly as it was.
\<close>

theorem absent_username_not_found:
  assumes "\<forall>r \<in> set t. username r \<noteq> uname"
  shows "get_user t uname = (Printed [Text (uname @ '' not found!'')], t)
         \<and> change_email t uname new_email
           = (Printed [Text (uname @ '' not found! Unable to update email.'')], t)
         \<and> delete_user t uname
           = (Printed [Text (uname @ '' not found! Unable to delete user.'')], t)"
proof -
  from assms have none: "List.find (\<lambda>u. username u = uname) t = None"
    by (simp add: find_None_iff)
  show ?thesis
    by (simp add: get_user_eq delete_user_eq change_email_absent none)
qed

theorem absent_username_not_found_witness:
  "get_user [bob_row] ''carol'' = (Printed [Text ''carol not found!''], [bob_row])
   \<and> change_email [bob_row] ''carol'' ''c@x.com''
     = (Printed [Text ''carol not found! Unable to update email.''], [bob_row])
   \<and> delete_user [bob_row] ''carol''
     = (Printed [Text ''carol not found! Unable to delete user.''], [bob_row])"
  using absent_username_not_found [of "[bob_row]" "''carol''" "''c@x.com''"]
  by (simp add: bob_row_def)

section \<open>Changing the email of an existing user\<close>

text \<open>
  C4. For an existing user, \<open>change_email\<close> hands the changed object to the session and
  commits, with no check of its own: its result is whatever the commit yields, an exception
  of the commit leaving the command uncaught. When another record already holds the new
  email, the engine's unique constraint makes the commit raise \<open>IntegrityError\<close>, and the
  command ends with that exception (not with a printed message) and an unchanged table.
\<close>

theorem change_email_no_uniqueness_check:
  assumes "table_ok t" and "usr \<in> set t" and "username usr = uname"
  shows "change_email t uname new_email =
           (case db_commit (db_add (get_session t) (usr\<lparr>email := new_email\<rparr>)) of
              Inl e \<Rightarrow> (Raised e, t)
            | Inr db' \<Rightarrow>
                (Printed [Text (''Updated '' @ uname @ [CHR 0x27] @ ''s email to '' @ new_email)],
                 table db'))
         \<and> ((\<exists>r \<in> set t. r \<noteq> usr \<and> email r = new_email) \<longrightarrow>
              db_commit (db_add (get_session t) (usr\<lparr>email := new_email\<rparr>))
                = Inl IntegrityError
              \<and> change_email t uname new_email = (Raised IntegrityError, t))"
proof -
  have has_id: "user_id (usr\<lparr>email := new_email\<rparr>) \<noteq> None"
    using ok_has_id [OF assms(1,2)] by simp
  have commit: "db_commit (db_add (get_session t) (usr\<lparr>email := new_email\<rparr>))
      = (if \<exists>r \<in> set t. r \<noteq> usr \<and> email r = new_email then Inl IntegrityError
         else Inr \<lparr>table = map (\<lambda>r. if r = usr then usr\<lparr>email := new_email\<rparr> else r) t,
                   pending = [], lastrowid = None\<rparr>)"
    using commit_update [OF has_id, of t]
      ok_update_map [OF assms(1,2), of "usr\<lparr>email := new_email\<rparr>"]
    by (simp add: ok_violation [OF assms(1,2)])
  have run: "change_email t uname new_email
           = (if \<exists>r \<in> set t. r \<noteq> usr \<and> email r = new_email then (Raised IntegrityError, t)
              else (Printed [Text (''Updated '' @ uname @ [CHR 0x27] @ ''s email to ''
                                   @ new_email)],
                    map (\<lambda>r. if r = usr then usr\<lparr>email := new_email\<rparr> else r) t))"
    using change_email_ok_table [OF assms(1,2), of new_email] assms(3) by simp
  show ?thesis
    by (simp add: commit run)
qed

theorem change_email_no_uniqueness_check_witness:
  "table_ok [bob_row, alice_row]
   \<and> change_email [bob_row, alice_row] ''alice'' ''bob@mail.com''
     = (Raised IntegrityError, [bob_row, alice_row])"
  using change_email_no_uniqueness_check
          [of "[bob_row, alice_row]" alice_row "''alice''" "''bob@mail.com''"]
  by (simp add: table_ok_def bob_row_def alice_row_def)

text \<open>
  C5, as amended. For an existing user and a new email that no other record holds,
  \<open>change_email\<close> replaces that user's row by the same row with the new email (username,
  password and id as before) and leaves every other row as it was.
\<close>

theorem change_email_updates_only_email:
  assumes "table_ok t" and "usr \<in> set t" and "username usr = uname"
    and "\<forall>r \<in> set t. r \<noteq> usr \<longrightarrow> email r \<noteq> new_email"
  shows "change_email t uname new_email
           = (Printed [Text (''Updated '' @ uname @ [CHR 0x27] @ ''s email to '' @ new_email)],
              map (\<lambda>r. if r = usr then usr\<lparr>email := new_email\<rparr> else r) t)
         \<and> email (usr\<lparr>email := new_email\<rparr>) = new_email
         \<and> username (usr\<lparr>email := new_email\<rparr>) = username usr
         \<and> password (usr\<lparr>email := new_email\<rparr>) = password usr
         \<and> user_id (usr\<lparr>email := new_email\<rparr>) = user_id usr"
  using change_email_ok_table [OF assms(1,2), of new_email] assms(3,4) by auto

theorem change_email_updates_only_email_witness:
  "table_ok [bob_row, alice_row]
   \<and> change_email [bob_row, alice_row] ''alice'' ''new@x.com''
     = (Printed [Text ''Updated alice's email to new@x.com''],
        [bob_row, alice_row\<lparr>email := ''new@x.com''\<rparr>])"
  using change_email_updates_only_email
          [of "[bob_row, alice_row]" alice_row "''alice''" "''new@x.com''"]
  by (simp add: table_ok_def bob_row_def alice_row_def)

text \<open>
  C5 as stated fails when the new email is held by another record: with \<open>bob\<close> and
  \<open>alice\<close> in the table, changing alice's email to bob's ends in \<open>IntegrityError\<close> and
  alice's email is not the new one afterwards.
\<close>

theorem change_email_taken_counterexample:
  "table_ok [bob_row, alice_row] \<and> alice_row \<in> set [bob_row, alice_row]
   \<and> change_email [bob_row, alice_row] ''alice'' ''bob@mail.com''
       = (Raised IntegrityError, [bob_row, alice_row])
   \<and> \<not> (\<exists>r \<in> set (snd (change_email [bob_row, alice_row] ''alice'' ''bob@mail.com'')).
           username r = ''alice'' \<and> email r = ''bob@mail.com'')"
proof -
  have ok: "table_ok [bob_row, alice_row]"
    by (simp add: table_ok_def bob_row_def alice_row_def)
  have run: "change_email [bob_row, alice_row] ''alice'' ''bob@mail.com''
       = (Raised IntegrityError, [bob_row, alice_row])"
    using change_email_ok_table [OF ok, of alice_row "''bob@mail.com''"]
    by (simp add: bob_row_def alice_row_def)
  show ?thesis
    by (simp add: ok run) (simp add: bob_row_def alice_row_def)
qed

section \<open>Uniqueness in every reachable table\<close>




section \<open>Searching\<close>




section \<open>Listing with limit and offset\<close>




section \<open>Commands that only read\<close>

text \<open>
  C10. \<open>get_user\<close>, \<open>get_all_users\<close>, \<open>search_user\<close> and \<open>list_users\<close> leave the table
  exactly as it was, for every argument, every table and every engine.
\<close>

theorem read_only_commands_keep_table:
  "snd (get_user t uname) = t \<and> snd (get_all_users t) = t
   \<and> snd (search_user eng t query) = t \<and> snd (list_users eng t limit offset) = t"
proof -
  have "snd (get_user t uname) = t"
    by (simp add: get_user_eq split: option.splits)
  moreover have "snd (get_all_users t) = t"
    by (simp add: get_all_users_def exec_all_def get_session_def session_exit_def Let_def)
  moreover have "snd (search_user eng t query) = t"
    by (simp add: search_user_eq Let_def)
  moreover have "snd (list_users eng t limit offset) = t"
    by (simp add: list_users_eq split: sum.splits)
  ultimately show ?thesis by simp
qed

theorem read_only_commands_keep_table_witness:
  "snd (get_user [bob_row] ''bob'') = [bob_row] \<and> snd (get_all_users [bob_row]) = [bob_row]
   \<and> snd (search_user sqlite [bob_row] ''b'') = [bob_row]
   \<and> snd (list_users sqlite [bob_row] (-3) 7) = [bob_row]"
  using read_only_commands_keep_table [of "[bob_row]" "''bob''" sqlite "''b''" "-3" 7]
  by simp

end
